theory Spec2Isabelle
  imports Main
begin

section \<open>streamprintf.h: type-checked printf to a stream\<close>

text \<open>
  The development embeds the class template \<open>Printf<CharT>\<close> of \<^verbatim>\<open>streamprintf.h\<close>:
  its constructor, the overloads of \<open>operator<<\<close>, the member functions \<open>Do\<close> and
  \<open>OutputStaticText\<close>, its destructor, and the wrapper \<open>oprintf\<close>.

  The build that is modelled is the one with assertions compiled in (\<open>NDEBUG\<close> not
  defined), so that \<open>PRINTF_TYPE(n)\<close> is \<open>n\<close> and every \<open>assert\<close>/\<open>assertmsg\<close> halts
  the call. A halted call is the value \<open>Inl e\<close>; \<open>e\<close> names the assertion.

  The characters of a format string are HOL's 8-bit \<open>char\<close> in \<open>Printf<char>\<close> and in
  \<open>Printf<wchar_t>\<close> alike; the two instantiations differ in the parameter \<open>narrow\<close>. What
  \<open>vsprintf\<close> writes into the result buffer lies outside the header: the stream records
  the directive, the argument and the buffer size of each call.
\<close>

subsection \<open>Outcomes\<close>

text \<open>
  One constructor per assertion message of the source, one for the plain \<open>assert\<close>s,
  three for the places where C++ gives the program no meaning: a read of \<open>_fmt\<close>
  behind its terminating null, a store into \<open>format\<close> at an index that is not below its
  30 elements, and a \<open>va_arg\<close> read at a type the caller did not pass; and one for an
  \<open>alloca\<close> that the stack cannot serve, where the program dies.
\<close>

datatype error =
    TooFewArguments              \<comment> \<open>"printf: Too few arguments"\<close>
  | TooManyArguments             \<comment> \<open>"printf: Too many arguments"\<close>
  | InvalidFormatSpecification   \<comment> \<open>"printf: Invalid format specification"\<close>
  | FormatTooLong                \<comment> \<open>"printf: Format specification is too long"\<close>
  | TypeMismatch                 \<comment> \<open>"printf: Type mismatch"\<close>
  | AssertionFailed              \<comment> \<open>a plain \<open>assert(...)\<close>\<close>
  | ReadPastEnd                  \<comment> \<open>\<open>_fmt[_pos]\<close> read behind the terminator\<close>
  | ScratchOverrun               \<comment> \<open>\<open>format[i]\<close> written with \<open>i \<ge> 30\<close>\<close>
  | VaArgMismatch                \<comment> \<open>\<open>va_arg\<close> at a type that was not passed\<close>
  | StackOverflow                \<comment> \<open>\<open>alloca\<close> asked for more than the stack has\<close>

definition and_then :: "error + 'a \<Rightarrow> ('a \<Rightarrow> error + 'b) \<Rightarrow> error + 'b" where
  "and_then m f = (case m of Inl e \<Rightarrow> Inl e | Inr x \<Rightarrow> f x)"

subsection \<open>Characters, C strings and \<open>int\<close>\<close>

abbreviation NUL :: char where
  "NUL \<equiv> CHR 0x00"

text \<open>
  A format string is the array \<open>f @ [NUL]\<close>: index \<open>length f\<close> holds the terminator,
  and nothing behind it may be read. \<open>fmt_at\<close> is the read \<open>_fmt[p]\<close> for \<open>p \<le> length f\<close>;
  the callers guard every read that can lie further out.
\<close>

definition fmt_at :: "string \<Rightarrow> nat \<Rightarrow> char" where
  "fmt_at f p = (if p < length f then f ! p else NUL)"

text \<open>
  \<open>strchr(s, c) != NULL\<close>. The C function also finds the terminator of \<open>s\<close>, so the
  test is true for \<open>c = '\0'\<close>.
\<close>

definition strchr :: "string \<Rightarrow> char \<Rightarrow> bool" where
  "strchr s c = (c = NUL \<or> c \<in> set s)"

definition isdigit :: "char \<Rightarrow> bool" where
  "isdigit c = (c \<in> set ''0123456789'')"

text \<open>\<open>c - '0'\<close> for a character \<open>c\<close>.\<close>

definition digit_value :: "char \<Rightarrow> int" where
  "digit_value c = int (of_char c) - 48"

text \<open>\<open>strlen\<close> and \<open>wcslen\<close>: the number of elements before the first null.\<close>

definition strlen :: "string \<Rightarrow> nat" where
  "strlen s = length (takeWhile (\<lambda>c. c \<noteq> NUL) s)"

definition wcslen :: "nat list \<Rightarrow> nat" where
  "wcslen w = length (takeWhile (\<lambda>c. c \<noteq> 0) w)"

text \<open>
  The header is written for Microsoft's compiler (\<open>__int64\<close>, \<open>_assert\<close>, \<open>_wassert\<close>,
  \<open>vsprintf_s\<close>, the \<open>%I64\<close> size prefix), where \<open>int\<close> and \<open>long\<close> both have 32 bits.
  \<open>int\<close> arithmetic is two's complement and wraps; \<open>int32\<close> brings a mathematical
  result back into the range of \<open>int\<close>, and is also the conversion from \<open>size_t\<close>.
\<close>

definition sizeof_int :: nat where
  "sizeof_int = 4"

definition sizeof_long :: nat where
  "sizeof_long = 4"


definition int32 :: "int \<Rightarrow> int" where
  "int32 x = (let m = x mod 4294967296 in if m < 2147483648 then m else m - 4294967296)"

subsection \<open>Type tags and arguments\<close>

text \<open>
  \<open>enum Size\<close> and \<open>enum Type\<close> (lines 106-108), the enumerators prefixed with \<open>S\<close> and \<open>T\<close>
  since \<open>None\<close>, \<open>Int\<close> and \<open>Char\<close> are taken in HOL. The \<open>int\<close> that \<open>Do\<close> receives as
  \<open>sizeAndType\<close> and takes apart with the two masks is a pair of the two.
\<close>

datatype Size = SNone | SShort | SLong | SInt64

datatype Type = TInt | TUnsigned | TFloat | TChar | TString | TWideString | TPointer

text \<open>
  One constructor per overload of \<open>operator<<\<close>, named after the C++ parameter type.
  Strings carry their characters, since \<open>Do\<close> measures them; floating-point values are
  never inspected and carry nothing.
\<close>

datatype arg =
    A_bool bool
  | A_short int
  | A_int int
  | A_long int
  | A_int64 int
  | A_ushort nat
  | A_uint nat
  | A_ulong nat
  | A_uint64 nat
  | A_float
  | A_double
  | A_long_double
  | A_char char
  | A_uchar char
  | A_cstr string           \<comment> \<open>\<open>const char*\<close>\<close>
  | A_ucstr string          \<comment> \<open>\<open>const unsigned char*\<close>\<close>
  | A_string string         \<comment> \<open>\<open>const std::string&\<close>, passed as \<open>s.c_str()\<close>\<close>
  | A_wcstr "nat list"      \<comment> \<open>\<open>const wchar_t*\<close>\<close>
  | A_wstring "nat list"    \<comment> \<open>\<open>const std::wstring&\<close>, passed as \<open>w.c_str()\<close>\<close>
  | A_ptr nat               \<comment> \<open>\<open>const void*\<close>\<close>

text \<open>The first argument each overload of \<open>operator<<\<close> gives to \<open>Do\<close> (lines 78-103).\<close>

fun sizeAndType :: "arg \<Rightarrow> Size \<times> Type" where
  "sizeAndType (A_bool n) = (SNone, TInt)"
| "sizeAndType (A_short n) = (SShort, TInt)"
| "sizeAndType (A_int n) = (SNone, TInt)"
| "sizeAndType (A_long n) = (SLong, TInt)"
| "sizeAndType (A_int64 n) = (SInt64, TInt)"
| "sizeAndType (A_ushort u) = (SShort, TUnsigned)"
| "sizeAndType (A_uint u) = (SNone, TUnsigned)"
| "sizeAndType (A_ulong u) = (SLong, TUnsigned)"
| "sizeAndType (A_uint64 u) = (SInt64, TUnsigned)"
| "sizeAndType A_float = (SNone, TFloat)"
| "sizeAndType A_double = (SNone, TFloat)"
| "sizeAndType A_long_double = (SLong, TFloat)"
| "sizeAndType (A_char c) = (SShort, TChar)"
| "sizeAndType (A_uchar c) = (SShort, TChar)"
| "sizeAndType (A_cstr s) = (SShort, TString)"
| "sizeAndType (A_ucstr s) = (SShort, TString)"
| "sizeAndType (A_string s) = (SShort, TString)"
| "sizeAndType (A_wcstr w) = (SLong, TString)"
| "sizeAndType (A_wstring w) = (SLong, TString)"
| "sizeAndType (A_ptr v) = (SNone, TPointer)"

text \<open>What \<open>va_arg(vl, char*)\<close> and \<open>va_arg(vl, wchar_t*)\<close> find in the argument.\<close>

fun va_arg_char_ptr :: "arg \<Rightarrow> string option" where
  "va_arg_char_ptr (A_cstr s) = Some s"
| "va_arg_char_ptr (A_ucstr s) = Some s"
| "va_arg_char_ptr (A_string s) = Some s"
| "va_arg_char_ptr a = None"

fun va_arg_wchar_ptr :: "arg \<Rightarrow> nat list option" where
  "va_arg_wchar_ptr (A_wcstr w) = Some w"
| "va_arg_wchar_ptr (A_wstring w) = Some w"
| "va_arg_wchar_ptr a = None"

subsection \<open>Build options\<close>

text \<open>
  The two macros of lines 26-46. \<open>narrow\<close>, a parameter of the functions below, is the
  compile-time test \<open>sizeof(CharT) == sizeof(char)\<close>: true in \<open>Printf<char>\<close>, false in
  \<open>Printf<wchar_t>\<close>.
\<close>

record config =
  STRICT_SIGN :: bool
  STRICT_INTSIZE :: bool

subsection \<open>The stream and the object\<close>

text \<open>
  What has been written to \<open>_ostm\<close>, oldest first: literal text, or the text that
  \<open>my_vsprintf\<close> (the C library's \<open>vsprintf\<close>, outside this header) produces for one
  directive, one argument and a buffer of the given number of characters.
\<close>

datatype out =
    Text string
  | Rendered string arg int

record Printf =
  fmt :: string     \<comment> \<open>\<open>_fmt\<close>, without its terminator\<close>
  pos :: nat        \<comment> \<open>\<open>_pos\<close>\<close>
  ostm :: "out list" \<comment> \<open>\<open>_ostm\<close>\<close>

subsection \<open>\<open>OutputStaticText\<close> (lines 345-374)\<close>

function OutputStaticText :: "Printf \<Rightarrow> error + Printf" where
  "OutputStaticText st =
     (if length (fmt st) < pos st then Inl ReadPastEnd
      else if fmt_at (fmt st) (pos st) = NUL then Inr st
      else if fmt_at (fmt st) (pos st) = CHR ''%'' then
        (if fmt_at (fmt st) (pos st + 1) = NUL then Inl InvalidFormatSpecification
         else if fmt_at (fmt st) (pos st + 1) = CHR ''%'' then
           OutputStaticText (st\<lparr>ostm := ostm st @ [Text ''%''], pos := pos st + 2\<rparr>)
         else Inr st)
      else
        OutputStaticText
          (st\<lparr>ostm := ostm st @ [Text [fmt_at (fmt st) (pos st)]], pos := pos st + 1\<rparr>))"
  by pat_completeness auto
termination
  by (relation "measure (\<lambda>st. Suc (length (fmt st)) - pos st)") auto

subsection \<open>\<open>Do\<close>: parsing one directive (lines 185-255)\<close>

text \<open>
  \<open>format[i++] = c\<close> into \<open>CharT format[30]\<close>. The list \<open>format\<close> holds the characters
  stored so far, so the index \<open>i\<close> of the source is its length.
\<close>

definition store :: "string \<Rightarrow> char \<Rightarrow> error + string" where
  "store format c = (if length format < 30 then Inr (format @ [c]) else Inl ScratchOverrun)"

text \<open>Lines 185-186.\<close>

definition parse_percent :: "string \<Rightarrow> nat \<Rightarrow> error + nat \<times> string" where
  "parse_percent f p =
     (if length f < p then Inl ReadPastEnd
      else if fmt_at f p \<noteq> CHR ''%'' then Inl TooManyArguments
      else Inr (p + 1, [fmt_at f p]))"

text \<open>
  Lines 189-190. At the terminator \<open>strchr\<close> is true as well: the loop stores the null,
  steps over it, and its next test reads behind the format string.
\<close>

function parse_flags :: "string \<Rightarrow> nat \<Rightarrow> string \<Rightarrow> error + nat \<times> string" where
  "parse_flags f p format =
     (if length f < p then Inl ReadPastEnd
      else if strchr ''-+0 #'' (fmt_at f p) then
        (if length format < 30 then parse_flags f (p + 1) (format @ [fmt_at f p])
         else Inl ScratchOverrun)
      else Inr (p, format))"
  by pat_completeness auto
termination
  by (relation "measure (\<lambda>(f, p, format). 30 - length format)") auto

text \<open>
  Lines 195-199 and 206-210; \<open>n\<close> is \<open>width\<close> in the first loop, \<open>precision\<close> in the second.
  The \<open>if\<close> of line 193 repeats the first test of the loop it guards.
\<close>

function parse_digits :: "string \<Rightarrow> nat \<Rightarrow> string \<Rightarrow> int \<Rightarrow> error + nat \<times> string \<times> int" where
  "parse_digits f p format n =
     (if isdigit (fmt_at f p) then
        (if length format < 30 then
           parse_digits f (p + 1) (format @ [fmt_at f p])
             (int32 (int32 (n * 10) + digit_value (fmt_at f p)))
         else Inl ScratchOverrun)
      else Inr (p, format, n))"
  by pat_completeness auto
termination
  by (relation "measure (\<lambda>(f, p, format, n). 30 - length format)") auto

text \<open>Lines 203-211.\<close>

definition parse_precision :: "string \<Rightarrow> nat \<Rightarrow> string \<Rightarrow> error + nat \<times> string \<times> int" where
  "parse_precision f p format =
     (if fmt_at f p = CHR ''.'' then
        and_then (store format (fmt_at f p)) (\<lambda>format'. parse_digits f (p + 1) format' 0)
      else Inr (p, format, 0))"

text \<open>
  Lines 214-229. The first test is true at the terminator too; \<open>&&\<close> reads \<open>_fmt[_pos+1]\<close>
  and \<open>_fmt[_pos+2]\<close> only behind an \<open>I\<close> and an \<open>I6\<close>, so within the array.
\<close>

definition parse_size :: "string \<Rightarrow> nat \<Rightarrow> string \<Rightarrow> error + nat \<times> string \<times> char" where
  "parse_size f p format =
     (if strchr ''hlL'' (fmt_at f p) then
        and_then (store format (fmt_at f p)) (\<lambda>format'.
          Inr (p + 1, format', if fmt_at f p = CHR ''L'' then CHR ''l'' else fmt_at f p))
      else if fmt_at f p = CHR ''I'' \<and> fmt_at f (p + 1) = CHR ''6'' \<and> fmt_at f (p + 2) = CHR ''4''
      then
        and_then (store format (fmt_at f p)) (\<lambda>format1.
        and_then (store format1 (fmt_at f (p + 1))) (\<lambda>format2.
        and_then (store format2 (fmt_at f (p + 2))) (\<lambda>format3.
          Inr (p + 3, format3, fmt_at f p))))
      else Inr (p, format, NUL))"

text \<open>
  Lines 231-232. When line 216 has consumed the terminator, the assertion reads behind
  the format string.
\<close>

definition parse_conversion :: "string \<Rightarrow> nat \<Rightarrow> string \<Rightarrow> error + nat \<times> string \<times> char" where
  "parse_conversion f p format =
     (if length f < p then Inl ReadPastEnd
      else if fmt_at f p = NUL then Inl InvalidFormatSpecification
      else and_then (store format (fmt_at f p)) (\<lambda>format'. Inr (p + 1, format', fmt_at f p)))"

text \<open>Lines 234-247: the size class of a directive that names none.\<close>

definition default_sizeChar :: "bool \<Rightarrow> char \<Rightarrow> char \<Rightarrow> char" where
  "default_sizeChar narrow sizeChar fmtChar =
     (if sizeChar = NUL then
        (if fmtChar = CHR ''c'' \<or> fmtChar = CHR ''s'' then (if narrow then CHR ''h'' else CHR ''l'')
         else if fmtChar = CHR ''C'' \<or> fmtChar = CHR ''S'' then (if narrow then CHR ''l'' else CHR ''h'')
         else sizeChar)
      else sizeChar)"

text \<open>Lines 249-252.\<close>

definition lower_fmtChar :: "char \<Rightarrow> char" where
  "lower_fmtChar fmtChar =
     (if fmtChar = CHR ''C'' then CHR ''c''
      else if fmtChar = CHR ''S'' then CHR ''s''
      else fmtChar)"

text \<open>The locals of \<open>Do\<close> once the directive is parsed.\<close>

record directive =
  format :: string
  width :: int
  precision :: int
  sizeChar :: char
  fmtChar :: char
  next_pos :: nat    \<comment> \<open>\<open>_pos\<close> behind the conversion character\<close>

text \<open>
  Lines 185-232: position, stored characters, \<open>width\<close>, \<open>precision\<close>, \<open>sizeChar\<close> and
  \<open>fmtChar\<close> as the directive spells them.
\<close>

definition parse_fields ::
  "string \<Rightarrow> nat \<Rightarrow> error + nat \<times> string \<times> int \<times> int \<times> char \<times> char" where
  "parse_fields f p =
     and_then (parse_percent f p) (\<lambda>(p1, format1).
     and_then (parse_flags f p1 format1) (\<lambda>(p2, format2).
     and_then (parse_digits f p2 format2 0) (\<lambda>(p3, format3, w).
     and_then (parse_precision f p3 format3) (\<lambda>(p4, format4, pr).
     and_then (parse_size f p4 format4) (\<lambda>(p5, format5, sc).
     and_then (parse_conversion f p5 format5) (\<lambda>(p6, format6, fc).
       Inr (p6, format6, w, pr, sc, fc)))))))"

text \<open>
  Lines 185-255: the fields, the defaults of lines 234-252, the assertion on \<open>i\<close> and
  the store of the terminator at \<open>format[i]\<close>.
\<close>

definition parse_directive :: "bool \<Rightarrow> string \<Rightarrow> nat \<Rightarrow> error + directive" where
  "parse_directive narrow f p =
     and_then (parse_fields f p) (\<lambda>(p6, format6, w, pr, sc, fc).
       if length format6 < 30 then
         Inr \<lparr>format = format6, width = w, precision = pr,
              sizeChar = default_sizeChar narrow sc fc, fmtChar = lower_fmtChar fc,
              next_pos = p6\<rparr>
       else Inl FormatTooLong)"

subsection \<open>\<open>Do\<close>: type checking (lines 168-182 and 259-302)\<close>

definition legalPrintfTypeChars :: "config \<Rightarrow> Type \<Rightarrow> error + string" where
  "legalPrintfTypeChars cfg ty =
     (case ty of
        TInt \<Rightarrow> Inr (if STRICT_SIGN cfg then ''dioxX'' else ''diuoxX'')
      | TUnsigned \<Rightarrow> Inr (if STRICT_SIGN cfg then ''uoxX'' else ''diuoxX'')
      | TFloat \<Rightarrow> Inr ''eEfgG''
      | TChar \<Rightarrow> Inr ''c''
      | TString \<Rightarrow> Inr ''sp''
      | TPointer \<Rightarrow> Inr ''p''
      | TWideString \<Rightarrow> Inl AssertionFailed)"

definition assertmsg :: "bool \<Rightarrow> error \<Rightarrow> error + unit" where
  "assertmsg exp msg = (if exp then Inr () else Inl msg)"

text \<open>Lines 259-297.\<close>

definition check_size :: "config \<Rightarrow> Size \<Rightarrow> Type \<Rightarrow> directive \<Rightarrow> error + unit" where
  "check_size cfg sz ty d =
     (if ty = TString \<and> fmtChar d = CHR ''p'' then
        assertmsg (sizeChar d = NUL) InvalidFormatSpecification
      else if ty = TUnsigned \<and> sz = SShort then
        (if fmtChar d = CHR ''c'' then assertmsg (sizeChar d = CHR ''l'') TypeMismatch
         else assertmsg (sizeChar d = CHR ''h'') TypeMismatch)
      else
        (case sz of
           SNone \<Rightarrow>
             (if STRICT_INTSIZE cfg then assertmsg (sizeChar d = NUL) TypeMismatch
              else and_then (assertmsg (sizeof_int = sizeof_long) AssertionFailed) (\<lambda>_.
                   assertmsg (sizeChar d = NUL \<or> sizeChar d = CHR ''l'') TypeMismatch))
         | SLong \<Rightarrow>
             (if STRICT_INTSIZE cfg then assertmsg (sizeChar d = CHR ''l'') TypeMismatch
              else and_then (assertmsg (sizeof_int = sizeof_long) AssertionFailed) (\<lambda>_.
                   assertmsg (sizeChar d = NUL \<or> sizeChar d = CHR ''l'') TypeMismatch))
         | SShort \<Rightarrow> assertmsg (sizeChar d = CHR ''h'') TypeMismatch
         | SInt64 \<Rightarrow> assertmsg (sizeChar d = CHR ''I'') TypeMismatch))"

text \<open>Lines 299-302.\<close>

definition check_fmtChar :: "Size \<Rightarrow> Type \<Rightarrow> string \<Rightarrow> directive \<Rightarrow> error + unit" where
  "check_fmtChar sz ty legal d =
     (if ty = TUnsigned \<and> sz = SShort then
        assertmsg (fmtChar d = CHR ''c'' \<or> strchr legal (fmtChar d)) TypeMismatch
      else assertmsg (strchr legal (fmtChar d)) TypeMismatch)"

definition type_check :: "config \<Rightarrow> Size \<times> Type \<Rightarrow> string \<Rightarrow> directive \<Rightarrow> error + unit" where
  "type_check cfg tag legal d =
     and_then (check_size cfg (fst tag) (snd tag) d) (\<lambda>_.
       check_fmtChar (fst tag) (snd tag) legal d)"

subsection \<open>\<open>Do\<close>: the size of the result buffer (lines 305-333)\<close>

text \<open>Lines 306-328: \<open>width\<close> after the string branch.\<close>

definition string_width :: "directive \<Rightarrow> arg \<Rightarrow> error + int" where
  "string_width d a =
     (if fmtChar d = CHR ''s'' then
        and_then
          (if sizeChar d = CHR ''h'' then
             (case va_arg_char_ptr a of
                Some s \<Rightarrow> Inr (int32 (int (strlen s)))
              | None \<Rightarrow> Inl VaArgMismatch)
           else
             and_then (assertmsg (sizeChar d = CHR ''l'') AssertionFailed) (\<lambda>_.
               (case va_arg_wchar_ptr a of
                  Some w \<Rightarrow> Inr (int32 (int (wcslen w)))
                | None \<Rightarrow> Inl VaArgMismatch)))
          (\<lambda>len. Inr (if len > width d then len else width d))
      else Inr (width d))"

text \<open>Lines 330-332: \<open>width\<close> as it is given to \<open>alloca\<close> and to \<open>my_vsprintf\<close>.\<close>

definition buffer_width :: "directive \<Rightarrow> arg \<Rightarrow> error + int" where
  "buffer_width d a =
     and_then (string_width d a) (\<lambda>w.
       Inr (int32 ((if precision d > w then precision d else w) + 30)))"

text \<open>
  Line 333: \<open>alloca(width * sizeof(CharT))\<close>. The buffer is taken from the stack, which
  a program built with Microsoft's linker has 1 MB of unless it asks for another size;
  \<open>wchar_t\<close> has two bytes there. A request beyond the whole stack cannot be served, and
  a negative \<open>width\<close>, left by the wrap-around of line 332, converts to a \<open>size_t\<close> of
  at least 2 GB. The call then dies in \<open>alloca\<close>, or in the rendering into what a wrapped
  product has left of the buffer. A request within the stack is taken to be served: how
  much of the stack the callers have used is not known here.
\<close>

definition sizeof_CharT :: "bool \<Rightarrow> int" where
  "sizeof_CharT narrow = (if narrow then 1 else 2)"

definition STACK_SIZE :: int where
  "STACK_SIZE = 1048576"

definition alloca :: "bool \<Rightarrow> int \<Rightarrow> error + unit" where
  "alloca narrow w =
     (if 0 \<le> w \<and> w * sizeof_CharT narrow \<le> STACK_SIZE then Inr () else Inl StackOverflow)"

subsection \<open>\<open>Do\<close>, \<open>operator<<\<close>, constructor, destructor and \<open>oprintf\<close>\<close>

text \<open>Lines 149-342. The directive given to \<open>my_vsprintf\<close> is \<open>format\<close>.\<close>

definition Do :: "config \<Rightarrow> bool \<Rightarrow> Size \<times> Type \<Rightarrow> arg \<Rightarrow> Printf \<Rightarrow> error + Printf" where
  "Do cfg narrow tag a st =
     and_then (legalPrintfTypeChars cfg (snd tag)) (\<lambda>legal.
     and_then (parse_directive narrow (fmt st) (pos st)) (\<lambda>d.
     and_then (type_check cfg tag legal d) (\<lambda>_.
     and_then (buffer_width d a) (\<lambda>w.
     and_then (alloca narrow w) (\<lambda>_.
       OutputStaticText
         (st\<lparr>pos := next_pos d, ostm := ostm st @ [Rendered (format d) a w]\<rparr>))))))"

text \<open>Lines 78-103: \<open>p << a\<close>.\<close>

definition shift :: "config \<Rightarrow> bool \<Rightarrow> Printf \<Rightarrow> arg \<Rightarrow> error + Printf" where
  "shift cfg narrow st a = Do cfg narrow (sizeAndType a) a st"

text \<open>\<open>p << a1 << a2 << ...\<close>, stopping at the first assertion that fails.\<close>

fun shift_all :: "config \<Rightarrow> bool \<Rightarrow> Printf \<Rightarrow> arg list \<Rightarrow> error + Printf" where
  "shift_all cfg narrow st [] = Inr st"
| "shift_all cfg narrow st (a # as) =
     and_then (shift cfg narrow st a) (\<lambda>st'. shift_all cfg narrow st' as)"

text \<open>Lines 73-74.\<close>

definition Printf_ctor :: "out list \<Rightarrow> string \<Rightarrow> error + Printf" where
  "Printf_ctor ostm0 f = OutputStaticText \<lparr>fmt = f, pos = 0, ostm = ostm0\<rparr>"

text \<open>Lines 75-76.\<close>

definition Printf_dtor :: "Printf \<Rightarrow> error + unit" where
  "Printf_dtor st =
     (if length (fmt st) < pos st then Inl ReadPastEnd
      else assertmsg (fmt_at (fmt st) (pos st) = NUL) TooFewArguments)"

text \<open>
  Lines 379-453: \<open>oprintf(ostm, fmt, a1, ..., an)\<close> constructs the object, applies
  \<open>operator<<\<close> to the arguments in turn and destroys the object. The header has one
  overload for each number of arguments up to ten, all of this shape. The result is the
  stream after the call.
\<close>

definition oprintf :: "config \<Rightarrow> bool \<Rightarrow> out list \<Rightarrow> string \<Rightarrow> arg list \<Rightarrow> error + out list" where
  "oprintf cfg narrow ostm0 f as =
     and_then (Printf_ctor ostm0 f) (\<lambda>p.
     and_then (shift_all cfg narrow p as) (\<lambda>p'.
     and_then (Printf_dtor p') (\<lambda>_. Inr (ostm p'))))"

subsection \<open>The length of a string argument\<close>


subsection \<open>Compatible arguments\<close>


subsection \<open>Arguments that can be rendered\<close>


section \<open>Basic facts\<close>

lemma and_then_simps [simp]:
  "and_then (Inl e) f = Inl e"
  "and_then (Inr x) f = f x"
  by (simp_all add: and_then_def)


lemma assertmsg_simps [simp]:
  "assertmsg True msg = Inr ()"
  "assertmsg False msg = Inl msg"
  by (simp_all add: assertmsg_def)

declare OutputStaticText.simps [simp del]
declare parse_flags.simps [simp del]
declare parse_digits.simps [simp del]

lemma fmt_at_not_NUL: "fmt_at f p \<noteq> NUL \<Longrightarrow> p < length f"
  by (simp add: fmt_at_def split: if_splits)

lemma OutputStaticText_fmt_ostm:
  "OutputStaticText st = Inr st' \<Longrightarrow> fmt st' = fmt st \<and> pos st \<le> pos st' \<and> (\<exists>r. ostm st' = ostm st @ r)"
proof (induction st rule: OutputStaticText.induct)
  case (1 st)
  let ?c = "fmt_at (fmt st) (pos st)"
  let ?c1 = "fmt_at (fmt st) (pos st + 1)"
  from "1.prems" have inb: "\<not> length (fmt st) < pos st"
    by (subst (asm) OutputStaticText.simps) (simp split: if_splits)
  show ?case
  proof (cases "?c = NUL")
    case True
    with "1.prems" inb show ?thesis
      by (subst (asm) OutputStaticText.simps) simp
  next
    case nz: False
    show ?thesis
    proof (cases "?c = CHR ''%''")
      case pc: True
      from "1.prems" inb nz pc have n1: "?c1 \<noteq> NUL"
        by (subst (asm) OutputStaticText.simps) (simp split: if_splits)
      show ?thesis
      proof (cases "?c1 = CHR ''%''")
        case True
        with "1.prems" inb nz pc n1
        have "OutputStaticText (st\<lparr>ostm := ostm st @ [Text ''%''], pos := pos st + 2\<rparr>) = Inr st'"
          by (subst (asm) OutputStaticText.simps) simp
        from "1.IH"(1) [OF inb nz pc n1 True this] show ?thesis by auto
      next
        case False
        with "1.prems" inb nz pc n1 show ?thesis
          by (subst (asm) OutputStaticText.simps) simp
      qed
    next
      case False
      with "1.prems" inb nz
      have "OutputStaticText (st\<lparr>ostm := ostm st @ [Text [?c]], pos := pos st + 1\<rparr>) = Inr st'"
        by (subst (asm) OutputStaticText.simps) simp
      from "1.IH"(2) [OF inb nz False this] show ?thesis by auto
    qed
  qed
qed

lemma OutputStaticText_at_directive:
  assumes "fmt_at (fmt st) (pos st) = CHR ''%''"
    and "fmt_at (fmt st) (pos st + 1) \<noteq> NUL" and "fmt_at (fmt st) (pos st + 1) \<noteq> CHR ''%''"
  shows "OutputStaticText st = Inr st"
  using assms fmt_at_not_NUL [of "fmt st" "pos st"]
  by (subst OutputStaticText.simps) simp

lemma OutputStaticText_at_end:
  assumes "pos st \<le> length (fmt st)" and "fmt_at (fmt st) (pos st) = NUL"
  shows "OutputStaticText st = Inr st"
  using assms by (subst OutputStaticText.simps) simp

lemma parse_percent_u:
  "parse_directive narrow ''%u'' 0 =
     Inr \<lparr>format = ''%u'', width = 0, precision = 0, sizeChar = NUL, fmtChar = CHR ''u'',
          next_pos = 2\<rparr>"
  by code_simp

lemma int32_30: "int32 30 = 30"
  by (simp add: int32_def)

lemma parse_directive_fields:
  assumes "parse_fields f p = Inr (p', fm, w, pr, sc, fc)"
    and "parse_directive narrow f p = Inr d"
  shows "d = \<lparr>format = fm, width = w, precision = pr,
              sizeChar = default_sizeChar narrow sc fc, fmtChar = lower_fmtChar fc,
              next_pos = p'\<rparr>"
  using assms by (simp add: parse_directive_def split: if_splits)





lemma and_then_cong [fundef_cong]:
  "m = m' \<Longrightarrow> (\<And>x. m' = Inr x \<Longrightarrow> f x = f' x) \<Longrightarrow> and_then m f = and_then m' f'"
  by (cases m') simp_all

lemma store_eq_Inr: "store fm c = Inr fm' \<longleftrightarrow> length fm < 30 \<and> fm' = fm @ [c]"
  by (auto simp: store_def)









section \<open>The directives of a format string\<close>



section \<open>Scanner and parser\<close>



lemma OutputStaticText_escape:
  assumes "fmt_at (fmt st) (pos st) = CHR ''%''" and "fmt_at (fmt st) (pos st + 1) = CHR ''%''"
  shows "OutputStaticText st =
         OutputStaticText (st\<lparr>ostm := ostm st @ [Text ''%''], pos := pos st + 2\<rparr>)"
  using assms fmt_at_not_NUL [of "fmt st" "pos st"]
  by (subst OutputStaticText.simps) simp

















subsection \<open>A format string followed by one more \<open>%\<close>\<close>















subsection \<open>The range of \<open>width\<close> and \<open>precision\<close>\<close>





section \<open>The claims\<close>

subsection \<open>C1: the number of arguments\<close>




subsection \<open>C2: the scratch buffer \<open>format[30]\<close>\<close>

text \<open>
  C2. The claim asks that no character of a directive is stored at an index of 30 or
  more and that a directive that does not fit halts with "Format specification is too
  long". The assertion of line 254 is evaluated after the stores of lines 185-232. A
  directive of 31 characters has its last character stored at \<open>format[30]\<close>, behind the
  array, before the assertion is reached; a directive of 30 characters is stored within
  the array and then halts with the message.
\<close>

theorem C2_scratch_buffer_overrun:
  "length ''%00000000000000000000000000000d'' = 31
   \<and> parse_directive True ''%00000000000000000000000000000d'' 0 = Inl ScratchOverrun
   \<and> oprintf \<lparr>STRICT_SIGN = False, STRICT_INTSIZE = False\<rparr> True []
        ''%00000000000000000000000000000d'' [A_int 1] = Inl ScratchOverrun
   \<and> length ''%0000000000000000000000000000d'' = 30
   \<and> parse_directive True ''%0000000000000000000000000000d'' 0 = Inl FormatTooLong"
  by code_simp

subsection \<open>C3: \<open>STREAMPRINTF_STRICT_SIGN\<close>\<close>

text \<open>
  C3, as amended. With \<open>STRICT_SIGN\<close>, the legal conversion characters of a
  signed-integer argument are exactly \<open>d i o x X\<close> and those of an unsigned-integer
  argument exactly \<open>u o x X\<close>, and \<open>oprintf\<close> of \<open>"%u"\<close> with any signed-integer argument
  halts with "Type mismatch". Without it, both kinds share \<open>d i u o x X\<close>, and the same
  call returns, having passed the directive and the argument to \<open>vsprintf\<close>, exactly for
  the signed-integer arguments whose Size a directive without size marker admits: None,
  and Long when \<open>STRICT_INTSIZE\<close> is off as well; for the others it halts with "Type
  mismatch". The legal characters are those of \<open>legalPrintfTypeChars\<close>, lines 168-182.
\<close>

theorem C3_strict_sign:
  "(STRICT_SIGN cfg \<longrightarrow>
      (\<exists>legal. legalPrintfTypeChars cfg TInt = Inr legal
         \<and> set legal = {CHR ''d'', CHR ''i'', CHR ''o'', CHR ''x'', CHR ''X''})
    \<and> (\<exists>legal. legalPrintfTypeChars cfg TUnsigned = Inr legal
         \<and> set legal = {CHR ''u'', CHR ''o'', CHR ''x'', CHR ''X''})
    \<and> (\<forall>a. snd (sizeAndType a) = TInt \<longrightarrow>
          oprintf cfg narrow ostm0 ''%u'' [a] = Inl TypeMismatch))
   \<and> (\<not> STRICT_SIGN cfg \<longrightarrow>
      (\<exists>legal. legalPrintfTypeChars cfg TInt = Inr legal
         \<and> legalPrintfTypeChars cfg TUnsigned = Inr legal
         \<and> set legal = {CHR ''d'', CHR ''i'', CHR ''u'', CHR ''o'', CHR ''x'', CHR ''X''})
    \<and> (\<forall>a. snd (sizeAndType a) = TInt \<longrightarrow>
          oprintf cfg narrow ostm0 ''%u'' [a] =
            (if fst (sizeAndType a) = SNone
                \<or> (fst (sizeAndType a) = SLong \<and> \<not> STRICT_INTSIZE cfg)
             then Inr (ostm0 @ [Rendered ''%u'' a 30])
             else Inl TypeMismatch)))"
proof -
  have ctor: "Printf_ctor ostm0 ''%u'' = Inr \<lparr>fmt = ''%u'', pos = 0, ostm = ostm0\<rparr>"
    unfolding Printf_ctor_def
    by (rule OutputStaticText_at_directive) (simp_all add: fmt_at_def)
  have strict: "oprintf cfg narrow ostm0 ''%u'' [a] = Inl TypeMismatch"
    if "STRICT_SIGN cfg" and "snd (sizeAndType a) = TInt" for a
    using that
    by (cases a)
      (simp_all add: oprintf_def ctor shift_def Do_def legalPrintfTypeChars_def parse_percent_u
        type_check_def check_size_def check_fmtChar_def strchr_def sizeof_int_def sizeof_long_def)
  have fin: "OutputStaticText \<lparr>fmt = ''%u'', pos = 2, ostm = os\<rparr>
             = Inr \<lparr>fmt = ''%u'', pos = 2, ostm = os\<rparr>" for os
    by (rule OutputStaticText_at_end) (simp_all add: fmt_at_def)
  have al: "alloca narrow 30 = Inr ()"
    by (simp add: alloca_def sizeof_CharT_def STACK_SIZE_def)
  have lax: "oprintf cfg narrow ostm0 ''%u'' [a] =
            (if fst (sizeAndType a) = SNone
                \<or> (fst (sizeAndType a) = SLong \<and> \<not> STRICT_INTSIZE cfg)
             then Inr (ostm0 @ [Rendered ''%u'' a 30])
             else Inl TypeMismatch)"
    if "\<not> STRICT_SIGN cfg" and "snd (sizeAndType a) = TInt" for a
    using that
    by (cases a)
      (simp_all add: oprintf_def ctor shift_def Do_def legalPrintfTypeChars_def parse_percent_u
        type_check_def check_size_def check_fmtChar_def strchr_def sizeof_int_def sizeof_long_def
        buffer_width_def string_width_def int32_30 al fin Printf_dtor_def fmt_at_def)
  show ?thesis
    using strict lax by (auto simp: legalPrintfTypeChars_def)
qed

theorem C3_strict_sign_witness:
  "STRICT_SIGN \<lparr>STRICT_SIGN = True, STRICT_INTSIZE = False\<rparr>
   \<and> snd (sizeAndType (A_int 7)) = TInt
   \<and> oprintf \<lparr>STRICT_SIGN = True, STRICT_INTSIZE = False\<rparr> True [] ''%u'' [A_int 7]
       = Inl TypeMismatch
   \<and> \<not> STRICT_SIGN \<lparr>STRICT_SIGN = False, STRICT_INTSIZE = False\<rparr>
   \<and> sizeAndType (A_int 7) = (SNone, TInt)
   \<and> oprintf \<lparr>STRICT_SIGN = False, STRICT_INTSIZE = False\<rparr> True [] ''%u'' [A_int 7]
       = Inr [Rendered ''%u'' (A_int 7) 30]
   \<and> oprintf \<lparr>STRICT_SIGN = False, STRICT_INTSIZE = False\<rparr> True [] ''%u'' [A_long 7]
       = Inr [Rendered ''%u'' (A_long 7) 30]"
  using C3_strict_sign [of "\<lparr>STRICT_SIGN = True, STRICT_INTSIZE = False\<rparr>" True "[]"]
    C3_strict_sign [of "\<lparr>STRICT_SIGN = False, STRICT_INTSIZE = False\<rparr>" True "[]"]
  by simp

text \<open>
  The claim as stated lets the call succeed for a signed-integer argument once
  \<open>STRICT_SIGN\<close> is off. A \<open>short\<close> and an \<open>__int64\<close> are signed integers, and \<open>"%u"\<close> halts
  them at lines 291 and 294, whatever the strictness.
\<close>

theorem C3_size_counterexample:
  "snd (sizeAndType (A_short 1)) = TInt
   \<and> oprintf \<lparr>STRICT_SIGN = False, STRICT_INTSIZE = False\<rparr> True [] ''%u'' [A_short 1]
       = Inl TypeMismatch
   \<and> snd (sizeAndType (A_int64 1)) = TInt
   \<and> oprintf \<lparr>STRICT_SIGN = False, STRICT_INTSIZE = False\<rparr> True [] ''%u'' [A_int64 1]
       = Inl TypeMismatch"
  by code_simp

subsection \<open>C4: an \<open>unsigned short\<close> argument\<close>

text \<open>
  C4. For an argument of tag (Short, Unsigned) and a directive that parses: when the
  conversion character is \<open>c\<close> the size class of the directive has to be \<open>l\<close>, otherwise
  it has to be \<open>h\<close>. With any other size class \<open>operator<<\<close> halts with "Type mismatch",
  and whenever it returns, the size class is the required one. The size class is the
  one in force after line 247, that is, after the defaults for \<open>c\<close>, \<open>s\<close>, \<open>C\<close> and \<open>S\<close>.
\<close>

theorem C4_unsigned_short_marker:
  assumes "sizeAndType a = (SShort, TUnsigned)"
    and "parse_directive narrow (fmt st) (pos st) = Inr d"
  shows "(sizeChar d \<noteq> (if fmtChar d = CHR ''c'' then CHR ''l'' else CHR ''h'') \<longrightarrow>
            shift cfg narrow st a = Inl TypeMismatch)
       \<and> (\<forall>st'. shift cfg narrow st a = Inr st' \<longrightarrow>
            sizeChar d = (if fmtChar d = CHR ''c'' then CHR ''l'' else CHR ''h''))"
proof -
  let ?marker = "if fmtChar d = CHR ''c'' then CHR ''l'' else CHR ''h''"
  have fail: "shift cfg narrow st a = Inl TypeMismatch" if "sizeChar d \<noteq> ?marker"
    using that assms
    by (simp add: shift_def Do_def legalPrintfTypeChars_def type_check_def check_size_def
        split: if_splits)
  have "sizeChar d = ?marker" if "shift cfg narrow st a = Inr st'" for st'
  proof (rule ccontr)
    assume "sizeChar d \<noteq> ?marker"
    from fail [OF this] that show False by simp
  qed
  with fail show ?thesis by blast
qed

theorem C4_unsigned_short_marker_witness:
  "sizeAndType (A_ushort 65) = (SShort, TUnsigned)
   \<and> parse_directive True ''%c'' 0
       = Inr \<lparr>format = ''%c'', width = 0, precision = 0, sizeChar = CHR ''h'',
              fmtChar = CHR ''c'', next_pos = 2\<rparr>
   \<and> shift \<lparr>STRICT_SIGN = False, STRICT_INTSIZE = False\<rparr> True
         \<lparr>fmt = ''%c'', pos = 0, ostm = []\<rparr> (A_ushort 65) = Inl TypeMismatch"
proof -
  have t: "sizeAndType (A_ushort 65) = (SShort, TUnsigned)" by simp
  have p: "parse_directive True (fmt \<lparr>fmt = ''%c'', pos = 0, ostm = []\<rparr>)
             (pos \<lparr>fmt = ''%c'', pos = 0, ostm = []\<rparr>)
           = Inr \<lparr>format = ''%c'', width = 0, precision = 0, sizeChar = CHR ''h'',
                  fmtChar = CHR ''c'', next_pos = 2\<rparr>"
    by code_simp
  from C4_unsigned_short_marker [OF t p, of "\<lparr>STRICT_SIGN = False, STRICT_INTSIZE = False\<rparr>"] p
  show ?thesis by simp
qed

subsection \<open>C5: the size class of \<open>c\<close>, \<open>s\<close>, \<open>C\<close> and \<open>S\<close>\<close>

text \<open>
  C5, as amended. Let a directive parse, with size marker \<open>sc\<close> (null when it has none)
  and conversion character \<open>fc\<close> as written. If it has no marker and \<open>fc\<close> is \<open>c\<close> or
  \<open>s\<close>, its size class becomes \<open>h\<close> in a narrow format string and \<open>l\<close> in a wide one.
  \<open>C\<close> and \<open>S\<close> are rewritten to \<open>c\<close> and \<open>s\<close> before the type check. If it has no marker
  and \<open>fc\<close> is \<open>C\<close> or \<open>S\<close>, its size class becomes the opposite one: \<open>l\<close> in a narrow
  format string, \<open>h\<close> in a wide one. A marker that is written is kept, for \<open>C\<close> and \<open>S\<close>
  as for every other conversion character.
\<close>

theorem C5_default_size_class:
  assumes "parse_fields f p = Inr (p', fm, w, pr, sc, fc)"
    and "parse_directive narrow f p = Inr d"
  shows "(sc = NUL \<and> (fc = CHR ''c'' \<or> fc = CHR ''s'') \<longrightarrow>
            sizeChar d = (if narrow then CHR ''h'' else CHR ''l'') \<and> fmtChar d = fc)
       \<and> (fc = CHR ''C'' \<longrightarrow> fmtChar d = CHR ''c'')
       \<and> (fc = CHR ''S'' \<longrightarrow> fmtChar d = CHR ''s'')
       \<and> (sc = NUL \<and> (fc = CHR ''C'' \<or> fc = CHR ''S'') \<longrightarrow>
            sizeChar d = (if narrow then CHR ''l'' else CHR ''h''))
       \<and> (sc \<noteq> NUL \<longrightarrow> sizeChar d = sc)"
  unfolding parse_directive_fields [OF assms]
  by (simp add: default_sizeChar_def lower_fmtChar_def)

theorem C5_default_size_class_witness:
  "parse_fields ''%S'' 0 = Inr (2, ''%S'', 0, 0, NUL, CHR ''S'')
   \<and> parse_directive True ''%S'' 0
       = Inr \<lparr>format = ''%S'', width = 0, precision = 0, sizeChar = CHR ''l'',
              fmtChar = CHR ''s'', next_pos = 2\<rparr>
   \<and> sizeChar \<lparr>format = ''%S'', width = 0, precision = 0, sizeChar = CHR ''l'',
              fmtChar = CHR ''s'', next_pos = 2\<rparr> = (if True then CHR ''l'' else CHR ''h'')"
proof -
  have f: "parse_fields ''%S'' 0 = Inr (2, ''%S'', 0, 0, NUL, CHR ''S'')"
    by code_simp
  have p: "parse_directive True ''%S'' 0
       = Inr \<lparr>format = ''%S'', width = 0, precision = 0, sizeChar = CHR ''l'',
              fmtChar = CHR ''s'', next_pos = 2\<rparr>"
    by code_simp
  from C5_default_size_class [OF f p] f p show ?thesis by simp
qed

text \<open>
  The claim as stated lets \<open>C\<close> and \<open>S\<close> always force the opposite width. In a narrow
  format string \<open>%hS\<close> keeps the size class \<open>h\<close>: a narrow string is accepted and a wide
  one is refused.
\<close>

theorem C5_explicit_marker_counterexample:
  "parse_fields ''%hS'' 0 = Inr (3, ''%hS'', 0, 0, CHR ''h'', CHR ''S'')
   \<and> parse_directive True ''%hS'' 0
       = Inr \<lparr>format = ''%hS'', width = 0, precision = 0, sizeChar = CHR ''h'',
              fmtChar = CHR ''s'', next_pos = 3\<rparr>
   \<and> oprintf \<lparr>STRICT_SIGN = True, STRICT_INTSIZE = True\<rparr> True [] ''%hS'' [A_cstr ''hi'']
       = Inr [Rendered ''%hS'' (A_cstr ''hi'') 32]
   \<and> oprintf \<lparr>STRICT_SIGN = True, STRICT_INTSIZE = True\<rparr> True [] ''%hS'' [A_wcstr [104, 105]]
       = Inl TypeMismatch"
  by code_simp

subsection \<open>C6: the escape \<open>%%\<close>\<close>

text \<open>
  C6. Whenever the scanner \<open>OutputStaticText\<close> stands at a \<open>%\<close> that is immediately
  followed by another \<open>%\<close>, it writes exactly one \<open>Text ''%''\<close> to the stream, moves the
  cursor over both characters and goes on scanning from there: the call equals the call
  on that state. The scanner takes no argument, so none is consumed. If the scan returns,
  the \<open>%\<close> is in the stream right behind what was there before, and the cursor is behind
  both characters.
\<close>

theorem C6_percent_escape:
  assumes "fmt_at (fmt st) (pos st) = CHR ''%''"
    and "fmt_at (fmt st) (pos st + 1) = CHR ''%''"
  shows "OutputStaticText st =
           OutputStaticText (st\<lparr>ostm := ostm st @ [Text ''%''], pos := pos st + 2\<rparr>)
       \<and> (\<forall>st'. OutputStaticText st = Inr st' \<longrightarrow>
             (\<exists>r. ostm st' = ostm st @ Text ''%'' # r) \<and> pos st + 2 \<le> pos st')"
proof -
  let ?st2 = "st\<lparr>ostm := ostm st @ [Text ''%''], pos := pos st + 2\<rparr>"
  have step: "OutputStaticText st = OutputStaticText ?st2"
    using assms by (rule OutputStaticText_escape)
  have "(\<exists>r. ostm st' = ostm st @ Text ''%'' # r) \<and> pos st + 2 \<le> pos st'"
    if "OutputStaticText st = Inr st'" for st'
    using OutputStaticText_fmt_ostm [of ?st2 st'] that step by auto
  with step show ?thesis by blast
qed

theorem C6_percent_escape_witness:
  "fmt_at ''a%%b'' 1 = CHR ''%'' \<and> fmt_at ''a%%b'' 2 = CHR ''%''
   \<and> OutputStaticText \<lparr>fmt = ''a%%b'', pos = 1, ostm = [Text ''a'']\<rparr>
       = Inr \<lparr>fmt = ''a%%b'', pos = 4, ostm = [Text ''a'', Text ''%'', Text ''b'']\<rparr>"
proof -
  have h1: "fmt_at (fmt \<lparr>fmt = ''a%%b'', pos = 1, ostm = [Text ''a'']\<rparr>)
             (pos \<lparr>fmt = ''a%%b'', pos = 1, ostm = [Text ''a'']\<rparr>) = CHR ''%''"
    by (simp add: fmt_at_def)
  have h2: "fmt_at (fmt \<lparr>fmt = ''a%%b'', pos = 1, ostm = [Text ''a'']\<rparr>)
             (pos \<lparr>fmt = ''a%%b'', pos = 1, ostm = [Text ''a'']\<rparr> + 1) = CHR ''%''"
    by (simp add: fmt_at_def)
  have rest: "OutputStaticText \<lparr>fmt = ''a%%b'', pos = 3, ostm = [Text ''a'', Text ''%'']\<rparr>
       = Inr \<lparr>fmt = ''a%%b'', pos = 4, ostm = [Text ''a'', Text ''%'', Text ''b'']\<rparr>"
    by code_simp
  from C6_percent_escape [OF h1 h2] rest show ?thesis
    by (simp add: fmt_at_def numeral_3_eq_3)
qed

subsection \<open>C7: a format string that ends in a bare \<open>%\<close>\<close>




subsection \<open>C8: \<open>STREAMPRINTF_STRICT_INTSIZE\<close>\<close>

text \<open>
  C8, as amended. Let a directive parse and let the argument be neither a string given
  to \<open>%p\<close> nor an \<open>unsigned short\<close>. With \<open>STRICT_INTSIZE\<close>: a directive whose size class is
  none halts with "Type mismatch" unless the argument's Size is None, one whose size
  class is \<open>l\<close> halts unless the argument's Size is Long, an argument of Size None halts
  every directive with a size class, an argument of Size Long every directive whose size
  class is not \<open>l\<close>, and the two matching pairs pass the size check. Without
  \<open>STRICT_INTSIZE\<close>: an argument of Size None or Long passes the size check of a
  directive whose size class is none or \<open>l\<close>, so that only the conversion character
  decides. The size class is the one in force after line 247.
\<close>

theorem C8_strict_intsize:
  assumes "parse_directive narrow (fmt st) (pos st) = Inr d"
    and "sizeAndType a = (sz, ty)"
    and "legalPrintfTypeChars cfg ty = Inr legal"
    and "\<not> (ty = TString \<and> fmtChar d = CHR ''p'')"
    and "\<not> (ty = TUnsigned \<and> sz = SShort)"
  shows "(STRICT_INTSIZE cfg \<longrightarrow>
            (sizeChar d = NUL \<and> sz \<noteq> SNone \<longrightarrow> shift cfg narrow st a = Inl TypeMismatch)
          \<and> (sizeChar d = CHR ''l'' \<and> sz \<noteq> SLong \<longrightarrow> shift cfg narrow st a = Inl TypeMismatch)
          \<and> (sz = SNone \<and> sizeChar d \<noteq> NUL \<longrightarrow> shift cfg narrow st a = Inl TypeMismatch)
          \<and> (sz = SLong \<and> sizeChar d \<noteq> CHR ''l'' \<longrightarrow> shift cfg narrow st a = Inl TypeMismatch)
          \<and> ((sz = SNone \<and> sizeChar d = NUL) \<or> (sz = SLong \<and> sizeChar d = CHR ''l'') \<longrightarrow>
               check_size cfg sz ty d = Inr ()))
       \<and> (\<not> STRICT_INTSIZE cfg \<longrightarrow>
            ((sz = SNone \<or> sz = SLong) \<and> (sizeChar d = NUL \<or> sizeChar d = CHR ''l'') \<longrightarrow>
               check_size cfg sz ty d = Inr ()
             \<and> type_check cfg (sz, ty) legal d = check_fmtChar sz ty legal d))"
proof -
  have sh: "shift cfg narrow st a = Inl TypeMismatch" if "check_size cfg sz ty d = Inl TypeMismatch"
    using that assms(1,2,3) by (simp add: shift_def Do_def type_check_def)
  show ?thesis
    using assms(4,5)
    by (cases sz)
      (auto intro!: sh simp: check_size_def type_check_def sizeof_int_def sizeof_long_def)
qed

theorem C8_strict_intsize_witness:
  "parse_directive True ''%ld'' 0
     = Inr \<lparr>format = ''%ld'', width = 0, precision = 0, sizeChar = CHR ''l'',
            fmtChar = CHR ''d'', next_pos = 3\<rparr>
   \<and> sizeAndType (A_int 1) = (SNone, TInt)
   \<and> shift \<lparr>STRICT_SIGN = False, STRICT_INTSIZE = True\<rparr> True
         \<lparr>fmt = ''%ld'', pos = 0, ostm = []\<rparr> (A_int 1) = Inl TypeMismatch
   \<and> type_check \<lparr>STRICT_SIGN = False, STRICT_INTSIZE = False\<rparr> (SNone, TInt) ''diuoxX''
         \<lparr>format = ''%ld'', width = 0, precision = 0, sizeChar = CHR ''l'',
          fmtChar = CHR ''d'', next_pos = 3\<rparr> = Inr ()"
proof -
  let ?st = "\<lparr>fmt = ''%ld'', pos = 0, ostm = []\<rparr>"
  let ?d = "\<lparr>format = ''%ld'', width = 0, precision = 0, sizeChar = CHR ''l'',
            fmtChar = CHR ''d'', next_pos = 3\<rparr>"
  have p: "parse_directive True (fmt ?st) (pos ?st) = Inr ?d"
    by code_simp
  have t: "sizeAndType (A_int 1) = (SNone, TInt)" by simp
  have l1: "legalPrintfTypeChars \<lparr>STRICT_SIGN = False, STRICT_INTSIZE = True\<rparr> TInt = Inr ''diuoxX''"
    by (simp add: legalPrintfTypeChars_def)
  have l2: "legalPrintfTypeChars \<lparr>STRICT_SIGN = False, STRICT_INTSIZE = False\<rparr> TInt = Inr ''diuoxX''"
    by (simp add: legalPrintfTypeChars_def)
  have n1: "\<not> (TInt = TString \<and> fmtChar ?d = CHR ''p'')" by simp
  have n2: "\<not> (TInt = TUnsigned \<and> SNone = SShort)" by simp
  from C8_strict_intsize [OF p t l1 n1 n2] C8_strict_intsize [OF p t l2 n1 n2] p
  show ?thesis
    by (simp add: check_fmtChar_def strchr_def)
qed

text \<open>
  The claim as stated has no exception. With \<open>STRICT_INTSIZE\<close>, \<open>%p\<close> has no size marker
  and accepts a \<open>const char*\<close>, whose Size is Short; \<open>%lc\<close> has the marker \<open>l\<close> and accepts
  an \<open>unsigned short\<close>, whose Size is Short.
\<close>

theorem C8_special_cases_counterexample:
  "sizeAndType (A_cstr ''hello'') = (SShort, TString)
   \<and> parse_directive True ''%p'' 0
       = Inr \<lparr>format = ''%p'', width = 0, precision = 0, sizeChar = NUL,
              fmtChar = CHR ''p'', next_pos = 2\<rparr>
   \<and> oprintf \<lparr>STRICT_SIGN = False, STRICT_INTSIZE = True\<rparr> True [] ''%p'' [A_cstr ''hello'']
       = Inr [Rendered ''%p'' (A_cstr ''hello'') 30]
   \<and> sizeAndType (A_ushort 65) = (SShort, TUnsigned)
   \<and> parse_directive True ''%lc'' 0
       = Inr \<lparr>format = ''%lc'', width = 0, precision = 0, sizeChar = CHR ''l'',
              fmtChar = CHR ''c'', next_pos = 3\<rparr>
   \<and> oprintf \<lparr>STRICT_SIGN = False, STRICT_INTSIZE = True\<rparr> True [] ''%lc'' [A_ushort 65]
       = Inr [Rendered ''%lc'' (A_ushort 65) 30]"
  by code_simp

subsection \<open>C9: the size of the result buffer\<close>




subsection \<open>C10: a \<open>bool\<close> argument\<close>




end
